theory Spec2Isabelle
  imports Main "HOL-Library.Sublist"
begin

section \<open>JavaScript strings\<close>

text \<open>
  A JavaScript string is a sequence of UTF-16 code units; \<open>length\<close>, \<open>charAt\<close>, \<open>===\<close>,
  \<open>split\<close>, \<open>trim\<close> and the regular expression class \<open>\s\<close> all work on code units.
  A string is modelled as the list of its code units, each a natural number.
  \<open>js\<close> reads an ASCII literal as such a string.
\<close>

type_synonym jsstring = "nat list"

definition js :: "string \<Rightarrow> jsstring" where
  "js s = map of_char s"

text \<open>
  The code units that \<open>String.prototype.trim\<close> strips and that \<open>\s\<close> matches
  (ECMAScript WhiteSpace and LineTerminator): TAB, LF, VT, FF, CR, SPACE, U+00A0, U+1680,
  U+2000 to U+200A, U+2028, U+2029, U+202F, U+205F, U+3000 and U+FEFF.
\<close>

definition isWhiteSpace :: "nat \<Rightarrow> bool" where
  "isWhiteSpace c =
     (c = 9 \<or> c = 10 \<or> c = 11 \<or> c = 12 \<or> c = 13 \<or> c = 32 \<or> c = 160 \<or> c = 5760 \<or>
      (8192 \<le> c \<and> c \<le> 8202) \<or> c = 8232 \<or> c = 8233 \<or> c = 8239 \<or> c = 8287 \<or>
      c = 12288 \<or> c = 65279)"

text \<open>\<open>s.trim()\<close>: white space removed at both ends.\<close>

definition trim :: "jsstring \<Rightarrow> jsstring" where
  "trim s = rev (dropWhile isWhiteSpace (rev (dropWhile isWhiteSpace s)))"

text \<open>
  \<open>s.replace(/\s+/g, ' ')\<close>: scanning from the left, every maximal run of white space
  is replaced by one SPACE (code unit 32).
\<close>

function replaceWhiteSpaceRuns :: "jsstring \<Rightarrow> jsstring" where
  "replaceWhiteSpaceRuns [] = []"
| "replaceWhiteSpaceRuns (c # cs) =
     (if isWhiteSpace c then 32 # replaceWhiteSpaceRuns (dropWhile isWhiteSpace cs)
      else c # replaceWhiteSpaceRuns cs)"
  by pat_completeness auto
termination
  by (relation "measure length") (auto simp: length_dropWhile_le less_Suc_eq_le)

text \<open>
  \<open>s.split(' ')\<close>: the pieces between single SPACE code units. The result is never
  empty (\<open>''.split(' ')\<close> is \<open>['']\<close>), and two adjacent spaces give an empty piece.
\<close>

fun splitOn :: "nat \<Rightarrow> jsstring \<Rightarrow> jsstring list" where
  "splitOn sep [] = [[]]"
| "splitOn sep (c # cs) =
     (if c = sep then [] # splitOn sep cs
      else (case splitOn sep cs of
              [] \<Rightarrow> [[c]]
            | w # ws \<Rightarrow> (c # w) # ws))"

text \<open>\<open>xs.join(sep)\<close> on an array of strings.\<close>

fun join :: "jsstring \<Rightarrow> jsstring list \<Rightarrow> jsstring" where
  "join sep [] = []"
| "join sep [x] = x"
| "join sep (x # y # ys) = x @ sep @ join sep (y # ys)"

text \<open>
  A template literal \<open>${n}\<close> prints a non-negative integer in decimal, without leading
  zeros.
\<close>

fun numberToString :: "nat \<Rightarrow> jsstring" where
  "numberToString n =
     (if n < 10 then [48 + n] else numberToString (n div 10) @ [48 + n mod 10])"

declare numberToString.simps [simp del]

text \<open>
  The number a reader takes from a string of decimal digits; it is not part of the
  component, and serves to say which number a printed length shows.
\<close>

definition decimalValue :: "jsstring \<Rightarrow> nat" where
  "decimalValue ds = foldl (\<lambda>acc d. 10 * acc + (d - 48)) 0 ds"

text \<open>\<open>s.charAt(0)\<close>: the first code unit as a string, the empty string when there is none.\<close>

definition charAt0 :: "jsstring \<Rightarrow> jsstring" where
  "charAt0 s = take 1 s"

text \<open>
  \<open>toLowerCase\<close> and \<open>toUpperCase\<close> follow the Unicode case tables, which are not
  reproduced here: the functions of the component that call them take the case mapping
  as an argument of the same name, and every theorem holds for any such mapping.
  \<open>asciiLowerCase\<close> and \<open>asciiUpperCase\<close> are what the two built-ins compute on strings
  of ASCII code units; they instantiate the argument at concrete ASCII inputs.
\<close>

definition asciiLowerCase :: "jsstring \<Rightarrow> jsstring" where
  "asciiLowerCase s = map (\<lambda>c. if 65 \<le> c \<and> c \<le> 90 then c + 32 else c) s"

definition asciiUpperCase :: "jsstring \<Rightarrow> jsstring" where
  "asciiUpperCase s = map (\<lambda>c. if 97 \<le> c \<and> c \<le> 122 then c - 32 else c) s"

section \<open>Data model\<close>

text \<open>
  Modelled from the spec: the declarations of \<open>QuestionType\<close> and \<open>Question\<close> (module
  \<open>../types\<close>) are not among the sources. The spec gives three variant tags; the
  fourth constructor stands for a run-time tag that matches none of them, which the spec
  names as the unknown question type (the tag is a string at run time: the component
  calls \<open>question.type.replace\<close>).
\<close>

datatype QuestionType = MULTIPLE_CHOICE | FILL_IN_BLANK | REARRANGE | UNKNOWN_TYPE jsstring

text \<open>
  Modelled from the spec: the fields of \<open>Question\<close>. The component reads \<open>options\<close>
  and \<open>rearrangeParts\<close> with \<open>?.\<close> and tests the media URLs for truthiness, so these
  four are optional. The field \<open>id\<close> is named \<open>qid\<close> here.
\<close>

record Question =
  qid :: jsstring
  type :: QuestionType
  questionText :: jsstring
  explanation :: jsstring
  correctAnswer :: jsstring
  options :: "jsstring list option"
  rearrangeParts :: "jsstring list option"
  imageUrl :: "jsstring option"
  audioUrl :: "jsstring option"

text \<open>
  The props of the component. The callback \<open>onAnswer\<close> is not a field: a handler
  returns, next to the new state, the argument it passes to \<open>onAnswer\<close>, or \<open>None\<close>
  when it does not call it. \<open>userAnswer\<close> is \<open>string | null\<close>.
\<close>

record QuestionCardProps =
  question :: Question
  isAnswered :: bool
  userAnswer :: "jsstring option"

text \<open>The four \<open>useState\<close> cells of the component.\<close>

record CardState =
  inputVal :: jsstring
  selectedParts :: "jsstring list"
  showHint :: bool
  hintText :: jsstring

definition initialState :: CardState where
  "initialState = \<lparr>inputVal = [], selectedParts = [], showHint = False, hintText = []\<rparr>"

text \<open>The effect on \<open>question.id\<close>: all four cells are set back.\<close>

definition resetOnQuestionChange :: "CardState \<Rightarrow> CardState" where
  "resetOnQuestionChange s =
     s\<lparr>inputVal := [], selectedParts := [], showHint := False, hintText := []\<rparr>"

section \<open>Answer evaluation\<close>

text \<open>
  \<open>isCorrect\<close>. \<open>!userAnswer\<close> holds for \<open>null\<close> and for the empty string. No call
  in the body can throw on values of the declared types, so the result is a plain
  truth value.
\<close>

definition isCorrect :: "(jsstring \<Rightarrow> jsstring) \<Rightarrow> QuestionCardProps \<Rightarrow> bool" where
  "isCorrect toLowerCase p =
     (case userAnswer p of
        None \<Rightarrow> False
      | Some ua \<Rightarrow>
          if ua = [] then False
          else if type (question p) = REARRANGE then
            trim (replaceWhiteSpaceRuns ua) =
              trim (replaceWhiteSpaceRuns (correctAnswer (question p)))
          else toLowerCase ua = toLowerCase (correctAnswer (question p)))"

section \<open>Hint generation\<close>

text \<open>
  The fixed pieces of the three template literals of \<open>generateHint\<close>, as the code units
  of the source text (Vietnamese, in composed form). Read with the accents dropped:
  \<^item> multiple choice: \<open>Hay loai bo phuong an: "\<close> ... \<open>". Do khong phai la dap an dung.\<close>
  \<^item> fill in the blank: \<open>Tu nay co \<close> ... \<open> chu cai. Bat dau bang chu "\<close> ... \<open>...".\<close>
  \<^item> rearrange: \<open>Cau bat dau bang cum tu: "\<close> ... \<open>..."\<close>
\<close>

definition mcHintPrefix :: jsstring where
  "mcHintPrefix =
     [72, 227, 121, 32, 108, 111, 7841, 105, 32, 98, 7887, 32, 112, 104, 432, 417, 110, 103,
      32, 225, 110, 58, 32, 34]"

definition mcHintSuffix :: jsstring where
  "mcHintSuffix =
     [34, 46, 32, 272, 243, 32, 107, 104, 244, 110, 103, 32, 112, 104, 7843, 105, 32, 108,
      224, 32, 273, 225, 112, 32, 225, 110, 32, 273, 250, 110, 103, 46]"

definition fillHintPrefix :: jsstring where
  "fillHintPrefix = [84, 7915, 32, 110, 224, 121, 32, 99, 243, 32]"

definition fillHintMiddle :: jsstring where
  "fillHintMiddle =
     [32, 99, 104, 7919, 32, 99, 225, 105, 46, 32, 66, 7855, 116, 32, 273, 7847, 117, 32, 98,
      7857, 110, 103, 32, 99, 104, 7919, 32, 34]"

definition fillHintSuffix :: jsstring where
  "fillHintSuffix = [46, 46, 46, 34, 46]"

definition rearrangeHintPrefix :: jsstring where
  "rearrangeHintPrefix =
     [67, 226, 117, 32, 98, 7855, 116, 32, 273, 7847, 117, 32, 98, 7857, 110, 103, 32, 99,
      7909, 109, 32, 116, 7915, 58, 32, 34]"

definition rearrangeHintSuffix :: jsstring where
  "rearrangeHintSuffix = [46, 46, 46, 34]"

text \<open>
  \<open>generateHint\<close>. The argument \<open>randomIndex\<close> is the value of
  \<open>Math.floor(Math.random() * wrongOptions.length)\<close>, the only use of randomness. An
  index past the end of the array reads \<open>undefined\<close>, which the template prints as the
  word; \<open>Math.random\<close> never produces such an index. The \<open>switch\<close> has no
  \<open>default\<close>: for any other tag \<open>text\<close> keeps its initial value, the empty string.
  \<open>if (hintText) return\<close> leaves the state as it is when the cell holds a non-empty
  string.
\<close>

definition generateHint ::
  "(jsstring \<Rightarrow> jsstring) \<Rightarrow> QuestionCardProps \<Rightarrow> nat \<Rightarrow> CardState \<Rightarrow> CardState" where
  "generateHint toUpperCase p randomIndex s =
     (if hintText s \<noteq> [] then s
      else
        s\<lparr>hintText :=
          (case type (question p) of
             MULTIPLE_CHOICE \<Rightarrow>
               (let wrongOptions =
                      (case options (question p) of
                         None \<Rightarrow> []
                       | Some os \<Rightarrow> filter (\<lambda>opt. opt \<noteq> correctAnswer (question p)) os)
                in if length wrongOptions > 0 then
                     (let randomWrong =
                            (if randomIndex < length wrongOptions
                             then wrongOptions ! randomIndex else js ''undefined'')
                      in mcHintPrefix @ randomWrong @ mcHintSuffix)
                   else [])
           | FILL_IN_BLANK \<Rightarrow>
               (let answer = trim (correctAnswer (question p));
                    firstChar = charAt0 answer
                in fillHintPrefix @ numberToString (length answer) @ fillHintMiddle @
                   toUpperCase firstChar @ fillHintSuffix)
           | REARRANGE \<Rightarrow>
               (let words = splitOn 32 (correctAnswer (question p));
                    revealCount = max 1 (min 2 (length words div 2));
                    hintPhrase = join [32] (take revealCount words)
                in rearrangeHintPrefix @ hintPhrase @ rearrangeHintSuffix)
           | UNKNOWN_TYPE _ \<Rightarrow> [])\<rparr>)"

definition toggleHint ::
  "(jsstring \<Rightarrow> jsstring) \<Rightarrow> QuestionCardProps \<Rightarrow> nat \<Rightarrow> CardState \<Rightarrow> CardState" where
  "toggleHint toUpperCase p randomIndex s =
     (let s' = (if \<not> showHint s then generateHint toUpperCase p randomIndex s else s)
      in s'\<lparr>showHint := \<not> showHint s\<rparr>)"

section \<open>Submission handlers\<close>

text \<open>
  The three handlers that call \<open>onAnswer\<close> leave the state as it is; their value is the
  argument of the call, \<open>None\<close> when the guard fails.
\<close>

definition handleMCSelect :: "QuestionCardProps \<Rightarrow> jsstring \<Rightarrow> jsstring option" where
  "handleMCSelect p option = (if \<not> isAnswered p then Some option else None)"

definition handleInputSubmit :: "QuestionCardProps \<Rightarrow> CardState \<Rightarrow> jsstring option" where
  "handleInputSubmit p s =
     (if \<not> isAnswered p \<and> trim (inputVal s) \<noteq> [] then Some (trim (inputVal s)) else None)"

text \<open>
  \<open>handlePartClick\<close>. The handler is a closure of one render: \<open>includes\<close> reads the
  \<open>selectedParts\<close> of that render, here \<open>renderedParts\<close>, while the updater passed
  to \<open>setSelectedParts\<close> rewrites \<open>prev\<close>, the pending value of the cell, here
  \<open>selectedParts s\<close>. The two are the same list when the card has been rendered again
  since the last update, and differ when two handlers of one render run.
\<close>

definition handlePartClick ::
  "QuestionCardProps \<Rightarrow> jsstring list \<Rightarrow> jsstring \<Rightarrow> CardState \<Rightarrow> CardState" where
  "handlePartClick p renderedParts part s =
     (if isAnswered p then s
      else if part \<in> set renderedParts then
        s\<lparr>selectedParts := filter (\<lambda>x. x \<noteq> part) (selectedParts s)\<rparr>
      else s\<lparr>selectedParts := selectedParts s @ [part]\<rparr>)"

definition handleRearrangeSubmit :: "QuestionCardProps \<Rightarrow> CardState \<Rightarrow> jsstring option" where
  "handleRearrangeSubmit p s =
     (if \<not> isAnswered p \<and> length (selectedParts s) > 0
      then Some (join [32] (selectedParts s)) else None)"

section \<open>The rendered controls\<close>

text \<open>
  What \<open>renderQuestionContent\<close> and the header wire to the handlers. The pool button
  of fragment \<open>idx\<close> is disabled, and hidden by its class, when the question is answered
  or \<open>selectedParts.includes(part)\<close>; a disabled button delivers no click.
\<close>

definition poolPartSelected :: "QuestionCardProps \<Rightarrow> CardState \<Rightarrow> nat \<Rightarrow> bool" where
  "poolPartSelected p s idx =
     (case rearrangeParts (question p) of
        None \<Rightarrow> False
      | Some parts \<Rightarrow> idx < length parts \<and> parts ! idx \<in> set (selectedParts s))"

definition poolPartDisabled :: "QuestionCardProps \<Rightarrow> CardState \<Rightarrow> nat \<Rightarrow> bool" where
  "poolPartDisabled p s idx = (isAnswered p \<or> poolPartSelected p s idx)"

text \<open>
  A tap on the pool button of fragment \<open>idx\<close>, and a tap on the button of the selected
  fragment at position \<open>idx\<close>, as drawn by the render that shows the state
  \<open>rendered\<close>: which buttons exist and are enabled, and the fragment a button passes to
  \<open>handlePartClick\<close>, come from \<open>rendered\<close>; the update falls on the pending state
  \<open>s\<close>.
\<close>

definition clickPoolPart ::
  "QuestionCardProps \<Rightarrow> CardState \<Rightarrow> nat \<Rightarrow> CardState \<Rightarrow> CardState" where
  "clickPoolPart p rendered idx s =
     (case rearrangeParts (question p) of
        None \<Rightarrow> s
      | Some parts \<Rightarrow>
          if type (question p) = REARRANGE \<and> idx < length parts \<and>
             \<not> poolPartDisabled p rendered idx
          then handlePartClick p (selectedParts rendered) (parts ! idx) s else s)"

definition clickSelectedPart ::
  "QuestionCardProps \<Rightarrow> CardState \<Rightarrow> nat \<Rightarrow> CardState \<Rightarrow> CardState" where
  "clickSelectedPart p rendered idx s =
     (if type (question p) = REARRANGE \<and> idx < length (selectedParts rendered) \<and>
         \<not> isAnswered p
      then handlePartClick p (selectedParts rendered) (selectedParts rendered ! idx) s
      else s)"

datatype Event =
    ClickOption nat
  | ChangeInput jsstring
  | SubmitForm
  | ClickPoolPart nat
  | ClickSelectedPart nat
  | ClickConfirm
  | ClickHint nat
  | QuestionIdChanged

text \<open>
  One event on a card that has just been rendered with the state \<open>s\<close>, so that the
  handlers see \<open>s\<close> and update \<open>s\<close>: the new state and the argument handed to
  \<open>onAnswer\<close>, if any. A control that is not rendered for the question's type, an index
  with no button, and a disabled button change nothing. \<open>ClickHint\<close> carries the
  random index that \<open>generateHint\<close> would draw.
\<close>

fun step ::
  "(jsstring \<Rightarrow> jsstring) \<Rightarrow> QuestionCardProps \<Rightarrow> Event \<Rightarrow> CardState \<Rightarrow>
     CardState \<times> jsstring option" where
  "step uc p (ClickOption idx) s =
     (case options (question p) of
        None \<Rightarrow> (s, None)
      | Some os \<Rightarrow>
          if type (question p) = MULTIPLE_CHOICE \<and> idx < length os \<and> \<not> isAnswered p
          then (s, handleMCSelect p (os ! idx)) else (s, None))"
| "step uc p (ChangeInput v) s =
     (if type (question p) = FILL_IN_BLANK \<and> \<not> isAnswered p
      then (s\<lparr>inputVal := v\<rparr>, None) else (s, None))"
| "step uc p SubmitForm s =
     (if type (question p) = FILL_IN_BLANK then (s, handleInputSubmit p s) else (s, None))"
| "step uc p (ClickPoolPart idx) s = (clickPoolPart p s idx s, None)"
| "step uc p (ClickSelectedPart idx) s = (clickSelectedPart p s idx s, None)"
| "step uc p ClickConfirm s =
     (if type (question p) = REARRANGE \<and> \<not> isAnswered p \<and> selectedParts s \<noteq> []
      then (s, handleRearrangeSubmit p s) else (s, None))"
| "step uc p (ClickHint randomIndex) s =
     (if \<not> isAnswered p then (toggleHint uc p randomIndex s, None) else (s, None))"
| "step uc p QuestionIdChanged s = (resetOnQuestionChange s, None)"

text \<open>
  A run of the card in which the card is rendered again after every event, so that each
  event is handled by a render that shows the state the previous event left. Each event
  comes with the props of its render (the parent may pass new props at any time).
\<close>

fun run ::
  "(jsstring \<Rightarrow> jsstring) \<Rightarrow> (QuestionCardProps \<times> Event) list \<Rightarrow> CardState \<Rightarrow> CardState" where
  "run uc [] s = s"
| "run uc ((p, e) # es) s = run uc es (fst (step uc p e s))"

section \<open>Example questions\<close>

text \<open>Concrete questions and props at which the theorems below are evaluated.\<close>

definition exampleQuestion ::
  "QuestionType \<Rightarrow> jsstring \<Rightarrow> jsstring list option \<Rightarrow> jsstring list option \<Rightarrow> Question" where
  "exampleQuestion ty ca os parts =
     \<lparr>qid = js ''q1'', type = ty, questionText = js ''?'', explanation = js ''!'',
      correctAnswer = ca, options = os, rearrangeParts = parts,
      imageUrl = None, audioUrl = None\<rparr>"

definition parisProps :: QuestionCardProps where
  "parisProps =
     \<lparr>question = exampleQuestion MULTIPLE_CHOICE (js ''Paris'')
                   (Some [js ''Paris'', js ''Rome'']) None,
      isAnswered = True, userAnswer = Some (js ''PARIS'')\<rparr>"

definition essayProps :: QuestionCardProps where
  "essayProps =
     \<lparr>question = exampleQuestion (UNKNOWN_TYPE (js ''ESSAY'')) (js ''Paris'') None None,
      isAnswered = True, userAnswer = Some (js ''paris'')\<rparr>"

definition blankSentenceProps :: QuestionCardProps where
  "blankSentenceProps =
     \<lparr>question = exampleQuestion REARRANGE [] None (Some [[]]),
      isAnswered = True, userAnswer = Some []\<rparr>"

definition catsProps :: QuestionCardProps where
  "catsProps =
     \<lparr>question = exampleQuestion REARRANGE (js ''I love cats'') None
                   (Some [js ''cats'', js ''I'', js ''love'']),
      isAnswered = True, userAnswer = Some (js '' I  love cats'')\<rparr>"

definition loveCatsHintProps :: QuestionCardProps where
  "loveCatsHintProps =
     \<lparr>question = exampleQuestion REARRANGE (js ''I love my two cats'') None
                   (Some [js ''cats'', js ''I'', js ''two'', js ''love'', js ''my'']),
      isAnswered = False, userAnswer = None\<rparr>"

definition fillProps :: QuestionCardProps where
  "fillProps =
     \<lparr>question = exampleQuestion FILL_IN_BLANK (js '' paris '') None None,
      isAnswered = False, userAnswer = None\<rparr>"

definition fillProps' :: QuestionCardProps where
  "fillProps' =
     \<lparr>question = exampleQuestion FILL_IN_BLANK (js ''Pizza'') None None,
      isAnswered = False, userAnswer = None\<rparr>"

definition pisaProps :: QuestionCardProps where
  "pisaProps =
     \<lparr>question = exampleQuestion FILL_IN_BLANK (js ''Pisa'') None None,
      isAnswered = False, userAnswer = None\<rparr>"

definition rouenProps :: QuestionCardProps where
  "rouenProps =
     \<lparr>question = exampleQuestion FILL_IN_BLANK (js ''rouen'') None None,
      isAnswered = False, userAnswer = None\<rparr>"


definition theCatProps :: QuestionCardProps where
  "theCatProps =
     \<lparr>question = exampleQuestion REARRANGE (js ''the cat saw the dog'') None
                   (Some [js ''the'', js ''cat'', js ''saw'', js ''the'', js ''dog'']),
      isAnswered = False, userAnswer = None\<rparr>"

definition theCatSelected :: CardState where
  "theCatSelected = initialState\<lparr>selectedParts := [js ''the'', js ''cat'']\<rparr>"

definition theTheSelected :: CardState where
  "theTheSelected = initialState\<lparr>selectedParts := [js ''the'', js ''the'']\<rparr>"

definition emptyOptionProps :: QuestionCardProps where
  "emptyOptionProps =
     \<lparr>question = exampleQuestion MULTIPLE_CHOICE (js ''a'') (Some [[], js ''a'']) None,
      isAnswered = False, userAnswer = None\<rparr>"

definition emptyPartProps :: QuestionCardProps where
  "emptyPartProps =
     \<lparr>question = exampleQuestion REARRANGE (js ''a'') None (Some [[], js ''a'']),
      isAnswered = False, userAnswer = None\<rparr>"

definition readyProps :: QuestionCardProps where
  "readyProps =
     \<lparr>question = exampleQuestion FILL_IN_BLANK (js ''paris'') (Some [js ''Rome'']) None,
      isAnswered = False, userAnswer = None\<rparr>"

definition readyState :: CardState where
  "readyState =
     \<lparr>inputVal = js '' Paris '', selectedParts = [js ''I'', js ''love''], showHint = False,
      hintText = []\<rparr>"

section \<open>Properties of the string operations\<close>

text \<open>The operations at concrete strings, as the built-ins compute them.\<close>

lemma trim_example: "trim (js ''  a b  '') = js ''a b''"
  by (simp add: js_def trim_def isWhiteSpace_def)

lemma replaceWhiteSpaceRuns_example:
  "replaceWhiteSpaceRuns (js ''  a   b  c '') = js '' a b c ''"
  by (simp add: js_def isWhiteSpace_def)

lemma replaceWhiteSpaceRuns_other_white_space:
  "replaceWhiteSpaceRuns ([97, 9, 10, 160, 8195, 98]) = js ''a b''"
  by (simp add: js_def isWhiteSpace_def)

lemma splitOn_example:
  "splitOn 32 (js ''I love  cats'') = [js ''I'', js ''love'', [], js ''cats'']"
  "splitOn 32 [] = [[]]"
  by (simp_all add: js_def)

lemma numberToString_example:
  "numberToString 0 = js ''0''" "numberToString 10 = js ''10''"
  "numberToString 1234 = js ''1234''"
  by (simp_all add: js_def numberToString.simps)

text \<open>\<open>numberToString\<close> prints decimal digits only, and they read back as the number.\<close>

lemma decimalValue_snoc: "decimalValue (ds @ [d]) = 10 * decimalValue ds + (d - 48)"
  by (simp add: decimalValue_def)

lemma decimalValue_numberToString: "decimalValue (numberToString n) = n"
proof (induction n rule: numberToString.induct)
  case (1 n)
  show ?case
  proof (cases "n < 10")
    case True
    then have "numberToString n = [48 + n]"
      by (subst numberToString.simps) simp
    then show ?thesis by (simp add: decimalValue_def)
  next
    case False
    then have "numberToString n = numberToString (n div 10) @ [48 + n mod 10]"
      by (subst numberToString.simps) simp
    with False "1.IH" show ?thesis by (simp add: decimalValue_snoc)
  qed
qed

lemma numberToString_digits: "list_all (\<lambda>d. 48 \<le> d \<and> d \<le> 57) (numberToString n)"
proof (induction n rule: numberToString.induct)
  case (1 n)
  show ?case
  proof (cases "n < 10")
    case True
    then have "numberToString n = [48 + n]"
      by (subst numberToString.simps) simp
    with True show ?thesis by simp
  next
    case False
    then have "numberToString n = numberToString (n div 10) @ [48 + n mod 10]"
      by (subst numberToString.simps) simp
    moreover have "n mod 10 \<le> 9" by presburger
    ultimately show ?thesis using False "1.IH" by simp
  qed
qed

lemma numberToString_inj: "numberToString m = numberToString n \<Longrightarrow> m = n"
  by (metis decimalValue_numberToString)

text \<open>
  A run of characters with a property, followed by a text that starts with a character
  without it: the run can be read off the front of the whole string.
\<close>

lemma run_then_text_inj:
  assumes "list_all P ds" and "list_all P ds'" and "m \<noteq> []" and "\<not> P (hd m)"
    and "ds @ m @ u = ds' @ m @ u'"
  shows "ds = ds' \<and> u = u'"
proof -
  have stop: "takeWhile P (m @ v) = []" for v
    using assms(3,4) by (cases m) simp_all
  have "takeWhile P (ds @ m @ u) = ds" and "takeWhile P (ds' @ m @ u') = ds'"
    using assms(1,2) by (simp_all add: list_all_iff takeWhile_append2 stop)
  with assms(5) have "ds = ds'" by simp
  with assms(5) show ?thesis by simp
qed

lemma splitOn_not_Nil: "splitOn sep s \<noteq> []"
  by (induction s) (auto split: list.splits)

lemma join_Cons: "ws \<noteq> [] \<Longrightarrow> join sep (w # ws) = w @ sep @ join sep ws"
  by (cases ws) simp_all

text \<open>Joining the pieces of a split with the separator gives the string back.\<close>

lemma join_splitOn: "join [sep] (splitOn sep s) = s"
proof (induction s)
  case Nil
  show ?case by simp
next
  case (Cons c cs)
  show ?case
  proof (cases "c = sep")
    case True
    with Cons show ?thesis by (simp add: join_Cons splitOn_not_Nil)
  next
    case False
    obtain w ws where sp: "splitOn sep cs = w # ws"
      using splitOn_not_Nil [of sep cs] by (cases "splitOn sep cs") auto
    with Cons False show ?thesis by (cases ws) auto
  qed
qed

lemma join_append:
  "xs \<noteq> [] \<Longrightarrow> ys \<noteq> [] \<Longrightarrow> join sep (xs @ ys) = join sep xs @ sep @ join sep ys"
proof (induction xs)
  case Nil
  then show ?case by simp
next
  case (Cons x xs)
  show ?case
  proof (cases "xs = []")
    case True
    with Cons.prems show ?thesis by (simp add: join_Cons)
  next
    case False
    with Cons show ?thesis by (simp add: join_Cons)
  qed
qed

text \<open>Joining fewer pieces, but at least one, gives a proper prefix of the whole join.\<close>

lemma join_take_strict_prefix:
  assumes "0 < k" and "k < length ws" and "sep \<noteq> []"
  shows "strict_prefix (join sep (take k ws)) (join sep ws)"
proof -
  have "take k ws \<noteq> []" and "drop k ws \<noteq> []"
    using assms by auto
  then have "join sep (take k ws @ drop k ws) =
      join sep (take k ws) @ sep @ join sep (drop k ws)"
    by (rule join_append)
  then have "join sep ws = join sep (take k ws) @ (sep @ join sep (drop k ws))"
    by simp
  moreover have "sep @ join sep (drop k ws) \<noteq> []"
    using assms by simp
  ultimately show ?thesis
    by (metis strict_prefixI' neq_Nil_conv)
qed

lemma join_eq_Nil_iff: "sep \<noteq> [] \<Longrightarrow> join sep xs = [] \<longleftrightarrow> xs = [] \<or> xs = [[]]"
  by (induction sep xs rule: join.induct) auto

section \<open>Answer evaluation: the claims\<close>

text \<open>
  For every type other than \<open>REARRANGE\<close> the evaluation is the comparison of the
  lower-cased strings, behind the guard on an absent or empty answer.
\<close>

lemma isCorrect_lower_cased:
  "type (question p) \<noteq> REARRANGE \<Longrightarrow>
   isCorrect lc p =
     (case userAnswer p of
        None \<Rightarrow> False
      | Some ua \<Rightarrow> ua \<noteq> [] \<and> lc ua = lc (correctAnswer (question p)))"
  by (auto simp: isCorrect_def split: option.splits)

lemma isCorrect_options:
  "isCorrect lc (p\<lparr>question := (question p)\<lparr>options := os\<rparr>\<rparr>) = isCorrect lc p"
  by (cases "userAnswer p") (simp_all add: isCorrect_def)

text \<open>
  Claim C2 as stated fails: a multiple-choice answer that is not one of the options is
  still judged correct when it equals the correct answer up to letter case. With the
  options \<open>Paris\<close> and \<open>Rome\<close> and the correct answer \<open>Paris\<close>, the answer \<open>PARIS\<close>
  is no option and evaluates to true.
\<close>

theorem isCorrect_not_an_option_counterexample:
  "type (question parisProps) = MULTIPLE_CHOICE \<and>
   correctAnswer (question parisProps) = js ''Paris'' \<and>
   options (question parisProps) = Some [js ''Paris'', js ''Rome''] \<and>
   userAnswer parisProps = Some (js ''PARIS'') \<and>
   js ''PARIS'' \<notin> set [js ''Paris'', js ''Rome''] \<and>
   isCorrect asciiLowerCase parisProps"
  by (simp add: parisProps_def exampleQuestion_def isCorrect_def js_def asciiLowerCase_def)

text \<open>
  Claim C2, amended: for every \<open>MULTIPLE_CHOICE\<close> question, evaluation returns true
  exactly when the submitted answer is present, is not the empty string, and its
  lower-cased form equals the lower-cased \<open>correctAnswer\<close>. The options are not
  consulted: replacing them by any other value, or by none, leaves the result as it is.
  No error is raised.
\<close>

theorem isCorrect_multiple_choice:
  assumes "type (question p) = MULTIPLE_CHOICE"
  shows "isCorrect toLowerCase p =
           (case userAnswer p of
              None \<Rightarrow> False
            | Some ua \<Rightarrow> ua \<noteq> [] \<and> toLowerCase ua = toLowerCase (correctAnswer (question p))) \<and>
         isCorrect toLowerCase (p\<lparr>question := (question p)\<lparr>options := os\<rparr>\<rparr>) =
           isCorrect toLowerCase p"
  using assms by (simp add: isCorrect_lower_cased isCorrect_options)

theorem isCorrect_multiple_choice_witness:
  "type (question parisProps) = MULTIPLE_CHOICE \<and>
   isCorrect asciiLowerCase parisProps =
     (js ''PARIS'' \<noteq> [] \<and> asciiLowerCase (js ''PARIS'') = asciiLowerCase (js ''Paris'')) \<and>
   isCorrect asciiLowerCase (parisProps\<lparr>question := (question parisProps)\<lparr>options := None\<rparr>\<rparr>) =
     isCorrect asciiLowerCase parisProps"
proof -
  have ty: "type (question parisProps) = MULTIPLE_CHOICE"
    by (simp add: parisProps_def exampleQuestion_def)
  show ?thesis
    using ty isCorrect_multiple_choice [OF ty, of asciiLowerCase None]
    by (simp add: parisProps_def exampleQuestion_def)
qed

text \<open>
  Claim C3 as stated fails: a question whose type is none of the three variants is
  evaluated by the lower-cased comparison, so a matching answer is judged correct.
\<close>

theorem isCorrect_unknown_type_counterexample:
  "type (question essayProps) \<noteq> MULTIPLE_CHOICE \<and>
   type (question essayProps) \<noteq> FILL_IN_BLANK \<and>
   type (question essayProps) \<noteq> REARRANGE \<and>
   userAnswer essayProps = Some (js ''paris'') \<and>
   isCorrect asciiLowerCase essayProps"
  by (simp add: essayProps_def exampleQuestion_def isCorrect_def js_def asciiLowerCase_def)

text \<open>
  Claim C3, amended: for every question whose type is none of \<open>MULTIPLE_CHOICE\<close>,
  \<open>FILL_IN_BLANK\<close> and \<open>REARRANGE\<close>, evaluation does not crash and falls through to
  the lower-cased comparison: it returns true exactly when the submitted answer is
  present, is not the empty string, and its lower-cased form equals the lower-cased
  \<open>correctAnswer\<close>.
\<close>

theorem isCorrect_unknown_type:
  assumes "type (question p) \<noteq> MULTIPLE_CHOICE"
    and "type (question p) \<noteq> FILL_IN_BLANK"
    and "type (question p) \<noteq> REARRANGE"
  shows "isCorrect toLowerCase p =
           (case userAnswer p of
              None \<Rightarrow> False
            | Some ua \<Rightarrow> ua \<noteq> [] \<and> toLowerCase ua = toLowerCase (correctAnswer (question p)))"
  using assms(3) by (rule isCorrect_lower_cased)

theorem isCorrect_unknown_type_witness:
  "type (question essayProps) \<noteq> MULTIPLE_CHOICE \<and>
   type (question essayProps) \<noteq> FILL_IN_BLANK \<and>
   type (question essayProps) \<noteq> REARRANGE \<and>
   isCorrect asciiLowerCase essayProps =
     (js ''paris'' \<noteq> [] \<and> asciiLowerCase (js ''paris'') = asciiLowerCase (js ''Paris''))"
proof -
  have ty: "type (question essayProps) \<noteq> MULTIPLE_CHOICE"
    "type (question essayProps) \<noteq> FILL_IN_BLANK"
    "type (question essayProps) \<noteq> REARRANGE"
    by (simp_all add: essayProps_def exampleQuestion_def)
  show ?thesis
    using ty isCorrect_unknown_type [OF ty, of asciiLowerCase]
    by (simp add: essayProps_def exampleQuestion_def)
qed

text \<open>
  Claim C4 as stated fails at the empty submitted answer: against a correct answer that
  is empty after normalisation the two normalised strings are equal, and the guard on
  the empty answer returns false before they are compared.
\<close>

theorem isCorrect_rearrange_empty_counterexample:
  "type (question blankSentenceProps) = REARRANGE \<and>
   userAnswer blankSentenceProps = Some [] \<and>
   trim (replaceWhiteSpaceRuns []) =
     trim (replaceWhiteSpaceRuns (correctAnswer (question blankSentenceProps))) \<and>
   \<not> isCorrect asciiLowerCase blankSentenceProps"
  by (simp add: blankSentenceProps_def exampleQuestion_def isCorrect_def)

text \<open>
  Claim C4, amended: for every \<open>REARRANGE\<close> question, evaluation returns true exactly
  when the submitted answer is present and not the empty string, and the submitted
  answer and the \<open>correctAnswer\<close> are equal after every run of white space is replaced
  by a single space and both strings are trimmed. The comparison is on code units, so it
  is case-sensitive; no case mapping takes part.
\<close>

theorem isCorrect_rearrange:
  assumes "type (question p) = REARRANGE"
  shows "isCorrect toLowerCase p =
           (case userAnswer p of
              None \<Rightarrow> False
            | Some ua \<Rightarrow>
                ua \<noteq> [] \<and>
                trim (replaceWhiteSpaceRuns ua) =
                  trim (replaceWhiteSpaceRuns (correctAnswer (question p))))"
  using assms by (auto simp: isCorrect_def split: option.splits)

theorem isCorrect_rearrange_witness:
  "type (question catsProps) = REARRANGE \<and>
   userAnswer catsProps = Some (js '' I  love cats'') \<and>
   trim (replaceWhiteSpaceRuns (js '' I  love cats'')) = js ''I love cats'' \<and>
   isCorrect asciiLowerCase catsProps \<and>
   \<not> isCorrect asciiLowerCase (catsProps\<lparr>userAnswer := Some (js ''i love cats'')\<rparr>)"
proof -
  have ty: "type (question catsProps) = REARRANGE"
    and ty': "type (question (catsProps\<lparr>userAnswer := Some (js ''i love cats'')\<rparr>)) = REARRANGE"
    by (simp_all add: catsProps_def exampleQuestion_def)
  show ?thesis
    using ty isCorrect_rearrange [OF ty, of asciiLowerCase]
      isCorrect_rearrange [OF ty', of asciiLowerCase]
    by (simp add: catsProps_def exampleQuestion_def js_def trim_def isWhiteSpace_def)
qed

text \<open>
  Claim C7: for every question, of any type, an absent submitted answer (\<open>null\<close>) and
  the empty string evaluate to false. The evaluation is a total function: nothing is
  thrown.
\<close>

theorem isCorrect_absent_or_empty:
  "userAnswer p = None \<or> userAnswer p = Some [] \<Longrightarrow> isCorrect toLowerCase p = False"
  by (auto simp: isCorrect_def)

theorem isCorrect_absent_or_empty_witness:
  "userAnswer blankSentenceProps = Some [] \<and>
   userAnswer (parisProps\<lparr>userAnswer := None\<rparr>) = None \<and>
   isCorrect asciiLowerCase blankSentenceProps = False \<and>
   isCorrect asciiLowerCase (parisProps\<lparr>userAnswer := None\<rparr>) = False"
proof -
  have h: "userAnswer blankSentenceProps = None \<or> userAnswer blankSentenceProps = Some []"
    and h': "userAnswer (parisProps\<lparr>userAnswer := None\<rparr>) = None \<or>
             userAnswer (parisProps\<lparr>userAnswer := None\<rparr>) = Some []"
    by (simp_all add: blankSentenceProps_def)
  show ?thesis
    using isCorrect_absent_or_empty [OF h, of asciiLowerCase]
      isCorrect_absent_or_empty [OF h', of asciiLowerCase]
    by (simp add: blankSentenceProps_def)
qed

section \<open>Hint generation: the claims\<close>


lemma generateHint_fresh_rearrange:
  "type (question p) = REARRANGE \<Longrightarrow> hintText s = [] \<Longrightarrow>
   hintText (generateHint uc p r s) =
     rearrangeHintPrefix @
     join [32] (take (max 1 (min 2 (length (splitOn 32 (correctAnswer (question p))) div 2)))
                  (splitOn 32 (correctAnswer (question p)))) @
     rearrangeHintSuffix"
  by (simp add: generateHint_def Let_def)

lemma generateHint_fresh_fill:
  "type (question p) = FILL_IN_BLANK \<Longrightarrow> hintText s = [] \<Longrightarrow>
   hintText (generateHint uc p r s) =
     fillHintPrefix @ numberToString (length (trim (correctAnswer (question p)))) @
     fillHintMiddle @ uc (charAt0 (trim (correctAnswer (question p)))) @ fillHintSuffix"
  by (simp add: generateHint_def Let_def)

text \<open>
  Claim C5: for every \<open>REARRANGE\<close> question, the hint generated on a card with no
  cached hint is the fixed opening, the first \<open>max 1 (min 2 (tokenCount div 2))\<close>
  tokens of the \<open>correctAnswer\<close> split on single spaces, joined by spaces, and the
  fixed ending. For an answer of 3 or more tokens these are at most 2 tokens, and the
  revealed phrase is a proper prefix of the answer, hence never the full answer.
\<close>

theorem generateHint_rearrange_prefix:
  assumes "type (question p) = REARRANGE" and "hintText s = []"
    and "words = splitOn 32 (correctAnswer (question p))"
    and "revealCount = max 1 (min 2 (length words div 2))"
  shows "hintText (generateHint toUpperCase p randomIndex s) =
           rearrangeHintPrefix @ join [32] (take revealCount words) @ rearrangeHintSuffix \<and>
         (3 \<le> length words \<longrightarrow>
            length (take revealCount words) \<le> 2 \<and>
            strict_prefix (join [32] (take revealCount words)) (correctAnswer (question p)) \<and>
            join [32] (take revealCount words) \<noteq> correctAnswer (question p))"
proof -
  have hint: "hintText (generateHint toUpperCase p randomIndex s) =
      rearrangeHintPrefix @ join [32] (take revealCount words) @ rearrangeHintSuffix"
    using assms by (simp add: generateHint_fresh_rearrange)
  have whole: "join [32] words = correctAnswer (question p)"
    using assms(3) by (simp add: join_splitOn)
  have "strict_prefix (join [32] (take revealCount words)) (correctAnswer (question p))"
    if "3 \<le> length words"
  proof -
    have "0 < revealCount" and "revealCount < length words"
      using that assms(4) by auto
    then have "strict_prefix (join [32] (take revealCount words)) (join [32] words)"
      by (rule join_take_strict_prefix) simp
    with whole show ?thesis by simp
  qed
  moreover have "length (take revealCount words) \<le> 2" if "3 \<le> length words"
    using that assms(4) by auto
  ultimately show ?thesis
    using hint by (auto simp: strict_prefix_def)
qed

theorem generateHint_rearrange_prefix_witness:
  "type (question loveCatsHintProps) = REARRANGE \<and> hintText initialState = [] \<and>
   splitOn 32 (correctAnswer (question loveCatsHintProps)) =
     [js ''I'', js ''love'', js ''my'', js ''two'', js ''cats''] \<and>
   max 1 (min 2 (length [js ''I'', js ''love'', js ''my'', js ''two'', js ''cats''] div 2)) =
     (2::nat) \<and>
   hintText (generateHint asciiUpperCase loveCatsHintProps 0 initialState) =
     rearrangeHintPrefix @ js ''I love'' @ rearrangeHintSuffix \<and>
   strict_prefix (js ''I love'') (js ''I love my two cats'')"
proof -
  have ty: "type (question loveCatsHintProps) = REARRANGE"
    and fresh: "hintText initialState = []"
    and ws: "[js ''I'', js ''love'', js ''my'', js ''two'', js ''cats''] =
               splitOn 32 (correctAnswer (question loveCatsHintProps))"
    and n: "(2::nat) =
              max 1 (min 2 (length [js ''I'', js ''love'', js ''my'', js ''two'', js ''cats''] div 2))"
    by (simp_all add: loveCatsHintProps_def exampleQuestion_def initialState_def js_def)
  show ?thesis
    using ty fresh ws [symmetric]
      generateHint_rearrange_prefix [OF ty fresh ws n, of asciiUpperCase 0]
    by (simp add: loveCatsHintProps_def exampleQuestion_def js_def)
qed

text \<open>
  The fill-in-the-blank sentence can be taken apart again: the printed number ends at
  the first character that is no digit, a space, and the fixed texts are the same in
  every hint.
\<close>

lemma fillHintMiddle_start:
  "fillHintMiddle \<noteq> []" "\<not> (48 \<le> hd fillHintMiddle \<and> hd fillHintMiddle \<le> 57)"
  by (simp_all add: fillHintMiddle_def)

lemma fill_hint_inj:
  assumes "fillHintPrefix @ numberToString m @ fillHintMiddle @ u @ fillHintSuffix =
           fillHintPrefix @ numberToString n @ fillHintMiddle @ v @ fillHintSuffix"
  shows "m = n \<and> u = v"
proof -
  from assms have "numberToString m @ fillHintMiddle @ (u @ fillHintSuffix) =
      numberToString n @ fillHintMiddle @ (v @ fillHintSuffix)"
    by (simp only: same_append_eq)
  with run_then_text_inj [where P = "\<lambda>d. 48 \<le> d \<and> d \<le> 57",
      OF numberToString_digits numberToString_digits fillHintMiddle_start]
  have "numberToString m = numberToString n \<and> u @ fillHintSuffix = v @ fillHintSuffix"
    by blast
  then show ?thesis
    by (simp only: append_same_eq) (blast dest: numberToString_inj)
qed

text \<open>
  Claim C6: for every \<open>FILL_IN_BLANK\<close> question, the hint generated on a card with no
  cached hint is one sentence: fixed text, the length of the trimmed \<open>correctAnswer\<close>
  printed in decimal digits (they read back as that length), fixed text, the upper-cased
  first code unit of the trimmed \<open>correctAnswer\<close>, fixed text. The hint reveals exactly
  these two values: the hints of two such questions are equal if and only if their
  trimmed answers have the same length and the same upper-cased first character. So
  the length and the upper-cased first character can be read off the hint, and nothing
  else of the answer can.
\<close>

theorem generateHint_fill_in_blank:
  assumes "type (question p) = FILL_IN_BLANK" and "hintText s = []"
    and "answer = trim (correctAnswer (question p))"
    and "type (question p') = FILL_IN_BLANK" and "hintText s' = []"
    and "answer' = trim (correctAnswer (question p'))"
  shows "hintText (generateHint toUpperCase p randomIndex s) =
           fillHintPrefix @ numberToString (length answer) @ fillHintMiddle @
           toUpperCase (take 1 answer) @ fillHintSuffix \<and>
         list_all (\<lambda>d. 48 \<le> d \<and> d \<le> 57) (numberToString (length answer)) \<and>
         decimalValue (numberToString (length answer)) = length answer \<and>
         (hintText (generateHint toUpperCase p' randomIndex' s') =
            hintText (generateHint toUpperCase p randomIndex s)) =
           (length answer' = length answer \<and>
            toUpperCase (take 1 answer') = toUpperCase (take 1 answer))"
proof -
  have hint: "hintText (generateHint toUpperCase p randomIndex s) =
      fillHintPrefix @ numberToString (length answer) @ fillHintMiddle @
      toUpperCase (take 1 answer) @ fillHintSuffix"
    unfolding assms(3) charAt0_def [symmetric]
    using assms(1,2) by (rule generateHint_fresh_fill)
  have hint': "hintText (generateHint toUpperCase p' randomIndex' s') =
      fillHintPrefix @ numberToString (length answer') @ fillHintMiddle @
      toUpperCase (take 1 answer') @ fillHintSuffix"
    unfolding assms(6) charAt0_def [symmetric]
    using assms(4,5) by (rule generateHint_fresh_fill)
  have same: "(hintText (generateHint toUpperCase p' randomIndex' s') =
            hintText (generateHint toUpperCase p randomIndex s)) =
           (length answer' = length answer \<and>
            toUpperCase (take 1 answer') = toUpperCase (take 1 answer))"
  proof
    assume "hintText (generateHint toUpperCase p' randomIndex' s') =
        hintText (generateHint toUpperCase p randomIndex s)"
    then show "length answer' = length answer \<and>
        toUpperCase (take 1 answer') = toUpperCase (take 1 answer)"
      unfolding hint hint' by (rule fill_hint_inj)
  next
    assume "length answer' = length answer \<and>
        toUpperCase (take 1 answer') = toUpperCase (take 1 answer)"
    then show "hintText (generateHint toUpperCase p' randomIndex' s') =
        hintText (generateHint toUpperCase p randomIndex s)"
      unfolding hint hint' by (elim conjE) (simp only:)
  qed
  from hint numberToString_digits decimalValue_numberToString same show ?thesis
    by (intro conjI)
qed

theorem generateHint_fill_in_blank_witness:
  "trim (correctAnswer (question fillProps)) = js ''paris'' \<and>
   hintText (generateHint asciiUpperCase fillProps 0 initialState) =
     fillHintPrefix @ js ''5'' @ fillHintMiddle @ js ''P'' @ fillHintSuffix \<and>
   decimalValue (js ''5'') = length (js ''paris'') \<and>
   hintText (generateHint asciiUpperCase fillProps' 7 initialState) =
     hintText (generateHint asciiUpperCase fillProps 0 initialState) \<and>
   hintText (generateHint asciiUpperCase pisaProps 0 initialState) =
     fillHintPrefix @ js ''4'' @ fillHintMiddle @ js ''P'' @ fillHintSuffix \<and>
   hintText (generateHint asciiUpperCase pisaProps 0 initialState) \<noteq>
     hintText (generateHint asciiUpperCase fillProps 0 initialState) \<and>
   hintText (generateHint asciiUpperCase rouenProps 0 initialState) =
     fillHintPrefix @ js ''5'' @ fillHintMiddle @ js ''R'' @ fillHintSuffix \<and>
   hintText (generateHint asciiUpperCase rouenProps 0 initialState) \<noteq>
     hintText (generateHint asciiUpperCase fillProps 0 initialState)"
proof -
  have ty: "type (question fillProps) = FILL_IN_BLANK"
    "type (question fillProps') = FILL_IN_BLANK"
    "type (question pisaProps) = FILL_IN_BLANK"
    "type (question rouenProps) = FILL_IN_BLANK"
    by (simp_all add: fillProps_def fillProps'_def pisaProps_def rouenProps_def
          exampleQuestion_def)
  have fresh: "hintText initialState = []"
    by (simp add: initialState_def)
  have a: "js ''paris'' = trim (correctAnswer (question fillProps))"
    "js ''Pizza'' = trim (correctAnswer (question fillProps'))"
    "js ''Pisa'' = trim (correctAnswer (question pisaProps))"
    "js ''rouen'' = trim (correctAnswer (question rouenProps))"
    by (simp_all add: fillProps_def fillProps'_def pisaProps_def rouenProps_def
          exampleQuestion_def js_def trim_def isWhiteSpace_def)
  have len: "length (js ''paris'') = 5" "length (js ''Pizza'') = 5"
    "length (js ''Pisa'') = 4" "length (js ''rouen'') = 5"
    by (simp_all add: js_def)
  have n: "numberToString 5 = js ''5''" "numberToString 4 = js ''4''"
    by (simp_all add: numberToString.simps js_def)
  have u: "asciiUpperCase (take 1 (js ''paris'')) = js ''P''"
    "asciiUpperCase (take 1 (js ''Pizza'')) = js ''P''"
    "asciiUpperCase (take 1 (js ''Pisa'')) = js ''P''"
    "asciiUpperCase (take 1 (js ''rouen'')) = js ''R''"
    by (simp_all add: js_def asciiUpperCase_def)
  have d: "decimalValue (js ''5'') = 5" "js ''R'' \<noteq> js ''P''"
    by (simp_all add: decimalValue_def js_def)
  note paris = generateHint_fill_in_blank [OF ty(1) fresh a(1), of _ _ _ asciiUpperCase 0,
      unfolded len n u]
  from paris [OF ty(2) fresh a(2), of 7, unfolded len n u]
    paris [OF ty(3) fresh a(3), of 0, unfolded len n u]
    paris [OF ty(4) fresh a(4), of 0, unfolded len n u]
    generateHint_fill_in_blank [OF ty(3) fresh a(3) ty(1) fresh a(1), of asciiUpperCase 0 0,
      unfolded len n u]
    generateHint_fill_in_blank [OF ty(4) fresh a(4) ty(1) fresh a(1), of asciiUpperCase 0 0,
      unfolded len n u]
    a(1) [symmetric] len(1) d
  show ?thesis
    by simp
qed






section \<open>Fragment selection and submission: the claims\<close>

text \<open>
  A handler whose render shows the pending selection keeps the selection free of
  repetition: it appends only a value that is not there, and otherwise filters.
\<close>

lemma handlePartClick_distinct:
  "distinct (selectedParts s) \<Longrightarrow>
   distinct (selectedParts (handlePartClick p (selectedParts s) part s))"
  by (simp add: handlePartClick_def)

lemma clickPoolPart_distinct:
  "distinct (selectedParts s) \<Longrightarrow> distinct (selectedParts (clickPoolPart p s idx s))"
  by (simp add: clickPoolPart_def handlePartClick_distinct split: option.splits)

lemma clickSelectedPart_distinct:
  "distinct (selectedParts s) \<Longrightarrow> distinct (selectedParts (clickSelectedPart p s idx s))"
  by (simp add: clickSelectedPart_def handlePartClick_distinct)

lemma generateHint_selectedParts: "selectedParts (generateHint uc p r s) = selectedParts s"
  by (simp add: generateHint_def)

lemma toggleHint_selectedParts: "selectedParts (toggleHint uc p r s) = selectedParts s"
  by (simp add: toggleHint_def Let_def generateHint_selectedParts)

lemma step_distinct:
  "distinct (selectedParts s) \<Longrightarrow> distinct (selectedParts (fst (step uc p e s)))"
  by (cases e)
     (auto simp: clickPoolPart_distinct clickSelectedPart_distinct toggleHint_selectedParts
           resetOnQuestionChange_def split: option.splits)

lemma run_distinct:
  "distinct (selectedParts s) \<Longrightarrow> distinct (selectedParts (run uc tr s))"
  by (induction tr arbitrary: s) (auto simp: step_distinct)

lemma distinct_count_list_le: "distinct xs \<Longrightarrow> count_list xs v \<le> 1"
  by (induction xs) (auto simp: count_list_0_iff)

text \<open>
  Claim C9 as stated fails: two taps handled by the handlers of one render both test the
  selection that render shows. On the first render of the card the pool buttons at
  positions 0 and 3, both reading \<open>the\<close>, are enabled; handled by that render, the two
  taps each append, the selection becomes \<open>[the, the]\<close>, and the confirm button then
  submits \<open>the the\<close>.
\<close>

theorem selectedParts_repeated_counterexample:
  "\<not> poolPartDisabled theCatProps initialState 0 \<and>
   \<not> poolPartDisabled theCatProps initialState 3 \<and>
   clickPoolPart theCatProps initialState 3
     (clickPoolPart theCatProps initialState 0 initialState) = theTheSelected \<and>
   selectedParts theTheSelected = [js ''the'', js ''the''] \<and>
   \<not> distinct (selectedParts theTheSelected) \<and>
   snd (step asciiUpperCase theCatProps ClickConfirm theTheSelected) = Some (js ''the the'')"
  by (simp add: theCatProps_def theTheSelected_def exampleQuestion_def initialState_def js_def
        poolPartDisabled_def poolPartSelected_def clickPoolPart_def handlePartClick_def
        handleRearrangeSubmit_def)

text \<open>
  Claim C9, amended: when the card is rendered again after every event, so that each tap
  is handled by a render that shows the selection the previous event left, then in every
  state reached from the initial state, under any props, the selection holds pairwise
  distinct strings: every string occurs in it at most once, a further tap on a pool
  fragment or on a selected fragment keeps it so, and the sentence handed over by the
  confirm button is the join of that selection, with at most one copy of any fragment
  value.
\<close>

theorem selectedParts_distinct:
  assumes "s = run uc tr initialState"
  shows "distinct (selectedParts s) \<and>
         count_list (selectedParts s) v \<le> 1 \<and>
         distinct (selectedParts (clickPoolPart p s idx s)) \<and>
         distinct (selectedParts (clickSelectedPart p s idx s)) \<and>
         (snd (step uc p ClickConfirm s) = Some sentence \<longrightarrow>
            sentence = join [32] (selectedParts s))"
proof -
  have d: "distinct (selectedParts s)"
    unfolding assms by (rule run_distinct) (simp add: initialState_def)
  moreover from d have "count_list (selectedParts s) v \<le> 1"
    by (rule distinct_count_list_le)
  moreover from d have "distinct (selectedParts (clickPoolPart p s idx s))"
    by (rule clickPoolPart_distinct)
  moreover from d have "distinct (selectedParts (clickSelectedPart p s idx s))"
    by (rule clickSelectedPart_distinct)
  moreover have "sentence = join [32] (selectedParts s)"
    if "snd (step uc p ClickConfirm s) = Some sentence"
    using that by (auto simp: handleRearrangeSubmit_def split: if_splits)
  ultimately show ?thesis by blast
qed

theorem selectedParts_distinct_witness:
  "run asciiUpperCase
     [(theCatProps, ClickPoolPart 0), (theCatProps, ClickPoolPart 3),
      (theCatProps, ClickPoolPart 1)] initialState = theCatSelected \<and>
   distinct (selectedParts theCatSelected) \<and>
   count_list (selectedParts theCatSelected) (js ''the'') \<le> 1 \<and>
   selectedParts (clickPoolPart theCatProps theCatSelected 2 theCatSelected) =
     [js ''the'', js ''cat'', js ''saw''] \<and>
   selectedParts (clickSelectedPart theCatProps theCatSelected 0 theCatSelected) =
     [js ''cat''] \<and>
   snd (step asciiUpperCase theCatProps ClickConfirm theCatSelected) = Some (js ''the cat'')"
proof -
  have r: "theCatSelected =
      run asciiUpperCase
        [(theCatProps, ClickPoolPart 0), (theCatProps, ClickPoolPart 3),
         (theCatProps, ClickPoolPart 1)] initialState"
    by (simp add: theCatProps_def theCatSelected_def exampleQuestion_def initialState_def
          js_def poolPartDisabled_def poolPartSelected_def clickPoolPart_def
          handlePartClick_def)
  have c: "snd (step asciiUpperCase theCatProps ClickConfirm theCatSelected) =
      Some (js ''the cat'')"
    by (simp add: theCatProps_def theCatSelected_def exampleQuestion_def initialState_def
          js_def handleRearrangeSubmit_def)
  have t: "selectedParts (clickPoolPart theCatProps theCatSelected 2 theCatSelected) =
      [js ''the'', js ''cat'', js ''saw'']"
    "selectedParts (clickSelectedPart theCatProps theCatSelected 0 theCatSelected) =
      [js ''cat'']"
    by (simp_all add: theCatProps_def theCatSelected_def exampleQuestion_def initialState_def
          js_def poolPartDisabled_def poolPartSelected_def clickPoolPart_def
          clickSelectedPart_def handlePartClick_def)
  show ?thesis
    using selectedParts_distinct [OF r, of "js ''the''" theCatProps 2 "js ''the cat''"]
      r [symmetric] c t
    by simp
qed

text \<open>
  Claim C1 requires that two pool fragments with the same string value can be selected
  and removed independently, each tap adding or removing exactly one occurrence. The
  component does not do this. With the pool \<open>the, cat, saw, the, dog\<close> and the card
  rendered again after each tap, a tap on position 0 selects \<open>the\<close> and disables the
  button at position 3 as well, so a tap there adds nothing and the selection stays at
  one occurrence. And where the selection does hold two copies of \<open>the\<close>, a tap on
  one selected copy removes both.
\<close>

theorem partClick_duplicate_not_independent:
  "rearrangeParts (question theCatProps) =
     Some [js ''the'', js ''cat'', js ''saw'', js ''the'', js ''dog''] \<and>
   selectedParts (run asciiUpperCase [(theCatProps, ClickPoolPart 0)] initialState) =
     [js ''the''] \<and>
   poolPartDisabled theCatProps
     (run asciiUpperCase [(theCatProps, ClickPoolPart 0)] initialState) 3 \<and>
   selectedParts
     (run asciiUpperCase [(theCatProps, ClickPoolPart 0), (theCatProps, ClickPoolPart 3)]
        initialState) = [js ''the''] \<and>
   selectedParts theTheSelected = [js ''the'', js ''the''] \<and>
   selectedParts (clickSelectedPart theCatProps theTheSelected 0 theTheSelected) = []"
  by (simp add: theCatProps_def theTheSelected_def exampleQuestion_def initialState_def js_def
        poolPartDisabled_def poolPartSelected_def clickPoolPart_def clickSelectedPart_def
        handlePartClick_def)

text \<open>
  Claim C10 as stated fails: the empty string reaches \<open>onAnswer\<close> on two of the three
  paths. A multiple-choice option that is the empty string is submitted as it is, and a
  selection consisting of one empty fragment joins to the empty string.
\<close>

theorem onAnswer_empty_counterexample:
  "type (question emptyOptionProps) = MULTIPLE_CHOICE \<and>
   options (question emptyOptionProps) = Some [[], js ''a''] \<and>
   snd (step asciiUpperCase emptyOptionProps (ClickOption 0) initialState) = Some [] \<and>
   type (question emptyPartProps) = REARRANGE \<and>
   rearrangeParts (question emptyPartProps) = Some [[], js ''a''] \<and>
   snd (step asciiUpperCase emptyPartProps ClickConfirm
          (run asciiUpperCase [(emptyPartProps, ClickPoolPart 0)] initialState)) = Some []"
  by (simp add: emptyOptionProps_def emptyPartProps_def exampleQuestion_def initialState_def
        handleMCSelect_def handleRearrangeSubmit_def clickPoolPart_def handlePartClick_def
        poolPartDisabled_def poolPartSelected_def)

text \<open>
  Claim C10, amended: every submission happens on an unanswered card only.
  \<open>FILL_IN_BLANK\<close> submits the trimmed input, and only when it is non-empty.
  \<open>REARRANGE\<close> submits the space-join of the selection, and only when at least one
  fragment is selected; the submitted string is empty exactly when the selection is the
  single empty fragment. \<open>MULTIPLE_CHOICE\<close> submits the tapped option string as it is.
\<close>

theorem onAnswer_argument:
  "(handleInputSubmit p s = Some a \<longrightarrow>
      \<not> isAnswered p \<and> a = trim (inputVal s) \<and> a \<noteq> []) \<and>
   (handleRearrangeSubmit p s = Some b \<longrightarrow>
      \<not> isAnswered p \<and> selectedParts s \<noteq> [] \<and> b = join [32] (selectedParts s) \<and>
      (b = [] \<longleftrightarrow> selectedParts s = [[]])) \<and>
   (handleMCSelect p opt = Some c \<longrightarrow> \<not> isAnswered p \<and> c = opt)"
proof -
  have "b = [] \<longleftrightarrow> selectedParts s = [[]]"
    if "selectedParts s \<noteq> []" and "b = join [32] (selectedParts s)"
    using that by (simp add: join_eq_Nil_iff)
  then show ?thesis
    by (auto simp: handleInputSubmit_def handleRearrangeSubmit_def handleMCSelect_def
          split: if_splits)
qed

theorem onAnswer_argument_witness:
  "handleInputSubmit readyProps readyState = Some (js ''Paris'') \<and>
   handleRearrangeSubmit readyProps readyState = Some (js ''I love'') \<and>
   handleMCSelect readyProps (js ''Rome'') = Some (js ''Rome'') \<and>
   \<not> isAnswered readyProps \<and> js ''Paris'' = trim (inputVal readyState) \<and>
   js ''Paris'' \<noteq> [] \<and> selectedParts readyState \<noteq> [] \<and>
   js ''I love'' = join [32] (selectedParts readyState) \<and> js ''I love'' \<noteq> []"
proof -
  have h: "handleInputSubmit readyProps readyState = Some (js ''Paris'')"
    "handleRearrangeSubmit readyProps readyState = Some (js ''I love'')"
    "handleMCSelect readyProps (js ''Rome'') = Some (js ''Rome'')"
    by (simp_all add: handleInputSubmit_def handleRearrangeSubmit_def handleMCSelect_def
          readyProps_def readyState_def js_def trim_def isWhiteSpace_def)
  show ?thesis
    using h
      onAnswer_argument [of readyProps readyState "js ''Paris''" "js ''I love''"
        "js ''Rome''" "js ''Rome''"]
    by (simp add: readyProps_def readyState_def js_def trim_def isWhiteSpace_def)
qed

end
